theory Spec2Isabelle
  imports Main "HOL-Library.Word" "HOL-Library.Monad_Syntax"
begin

unbundle bit_operations_syntax

section \<open>Memory: bytes, objects and pointers\<close>

text \<open>
  The three components of librfc work on raw bytes behind C pointers. A pointer is either
  \<open>nullptr\<close> or an address inside an object: the bytes of the object and an offset into
  them. Whatever C++ leaves undefined (reading through \<open>nullptr\<close>, reading or moving past
  the end of the object, subtracting pointers into different objects) is the value
  \<open>None\<close> of the model, so that no theorem can rest on it.
\<close>

type_synonym byte = "8 word"

datatype ptr = nullptr | Ptr "byte list" nat

fun deref :: "ptr \<Rightarrow> byte option" where
  "deref nullptr = None"
| "deref (Ptr m i) = (if i < length m then Some (m ! i) else None)"

fun ptr_add :: "ptr \<Rightarrow> nat \<Rightarrow> ptr option" where
  "ptr_add nullptr n = (if n = 0 then Some nullptr else None)"
| "ptr_add (Ptr m i) n = (if i + n \<le> length m then Some (Ptr m (i + n)) else None)"

fun ptr_diff :: "ptr \<Rightarrow> ptr \<Rightarrow> int option" where
  "ptr_diff (Ptr m i) (Ptr m' i') = (if m = m' then Some (int i - int i') else None)"
| "ptr_diff nullptr nullptr = Some 0"
| "ptr_diff _ _ = None"

text \<open>A string literal of the source, as the bytes before its terminating NUL.\<close>

definition bytes :: "string \<Rightarrow> byte list" where
  "bytes s = map of_char s"

section \<open>rfc3174::sha1 (src/rfc/rfc3174/sha1.h)\<close>

text \<open>
  \<open>struct sha1\<close> holds \<open>std::uint8_t _data[size] = {}\<close> with \<open>size = 20\<close>. Every
  constructor starts from the default member initialiser, that is from twenty zero bytes.
\<close>

definition sha1_size :: nat where
  "sha1_size = 20"

record sha1 =
  sha1_data :: "byte list"

text \<open>\<open>sha1() noexcept {}\<close>\<close>

definition sha1_default :: sha1 where
  "sha1_default = \<lparr>sha1_data = replicate sha1_size 0\<rparr>"

text \<open>
  \<open>sha1(const std::uint8_t* const data) noexcept { *_data = *data; }\<close>: the array
  \<open>_data\<close> decays to a pointer to its first element, so the statement assigns one
  \<open>std::uint8_t\<close>.
\<close>

definition sha1_from_ptr :: "ptr \<Rightarrow> sha1 option" where
  "sha1_from_ptr p = do {
     b \<leftarrow> deref p;
     Some (sha1_default\<lparr>sha1_data := (sha1_data sha1_default)[0 := b]\<rparr>)
   }"

text \<open>\<open>sha1(const sha1& other) noexcept { *_data = *other._data; }\<close>\<close>

definition sha1_copy :: "sha1 \<Rightarrow> sha1" where
  "sha1_copy other =
     sha1_default\<lparr>sha1_data := (sha1_data sha1_default)[0 := sha1_data other ! 0]\<rparr>"

text \<open>
  \<open>operator[](position)\<close> returns \<open>_data[position]\<close> unchecked; \<open>sha1_index\<close> reads
  through the reference and \<open>sha1_assign\<close> writes through it. A position outside the
  array is undefined.
\<close>

definition sha1_index :: "sha1 \<Rightarrow> nat \<Rightarrow> byte option" where
  "sha1_index d position =
     (if position < length (sha1_data d) then Some (sha1_data d ! position) else None)"

definition sha1_assign :: "sha1 \<Rightarrow> nat \<Rightarrow> byte \<Rightarrow> sha1 option" where
  "sha1_assign d position v =
     (if position < length (sha1_data d)
      then Some (d\<lparr>sha1_data := (sha1_data d)[position := v]\<rparr>) else None)"

text \<open>
  \<open>std::memcmp(a, b, n)\<close> compares the first \<open>n\<close> bytes as \<open>unsigned char\<close>. The C
  standard fixes only the sign of a non-zero result; the model returns \<open>-1\<close> or \<open>1\<close>.
\<close>

fun memcmp_bytes :: "byte list \<Rightarrow> byte list \<Rightarrow> int" where
  "memcmp_bytes (a # as) (b # bs) =
     (if a = b then memcmp_bytes as bs else if a < b then - 1 else 1)"
| "memcmp_bytes _ _ = 0"

definition memcmp :: "byte list \<Rightarrow> byte list \<Rightarrow> nat \<Rightarrow> int" where
  "memcmp a b n = memcmp_bytes (take n a) (take n b)"

text \<open>\<open>compare(other)\<close> is \<open>std::memcmp(_data, other._data, sizeof(_data))\<close>.\<close>

definition sha1_compare :: "sha1 \<Rightarrow> sha1 \<Rightarrow> int" where
  "sha1_compare d other = memcmp (sha1_data d) (sha1_data other) sha1_size"

text \<open>\<open>operator==(other)\<close> is \<open>compare(other) == 0\<close>.\<close>

definition sha1_eq :: "sha1 \<Rightarrow> sha1 \<Rightarrow> bool" where
  "sha1_eq d other = (sha1_compare d other = 0)"

section \<open>rfc::str (src/rfc/util/str.h)\<close>

text \<open>
  \<open>class str\<close> wraps one \<open>char* _data\<close>. \<open>std::size_t\<close> is taken as 64 bits wide
  (an LP64 platform); \<open>npos\<close> is \<open>static_cast<std::size_t>(-1)\<close>.
\<close>

type_synonym size_t = "64 word"

record str =
  str_data :: ptr

definition npos :: size_t where
  "npos = - 1"

text \<open>
  The bytes of the object from an address to the object's end: what a loop that walks a
  C string from the address can read before it leaves the object.
\<close>

fun bytes_from :: "ptr \<Rightarrow> byte list option" where
  "bytes_from nullptr = None"
| "bytes_from (Ptr m i) = (if i \<le> length m then Some (drop i m) else None)"

text \<open>
  \<open>std::strchr(s, c)\<close>: a pointer to the first byte equal to \<open>c\<close> in the string at
  \<open>s\<close>, whose terminating NUL counts as part of the string; \<open>nullptr\<close> when there is
  none. Leaving the object before a NUL is met is undefined.
\<close>

fun strchr_loop :: "byte list \<Rightarrow> nat \<Rightarrow> byte list \<Rightarrow> byte \<Rightarrow> ptr option" where
  "strchr_loop m i [] c = None"
| "strchr_loop m i (b # bs) c =
     (if b = c then Some (Ptr m i)
      else if b = 0 then Some nullptr
      else strchr_loop m (Suc i) bs c)"

fun strchr :: "ptr \<Rightarrow> byte \<Rightarrow> ptr option" where
  "strchr nullptr c = None"
| "strchr (Ptr m i) c = (if i \<le> length m then strchr_loop m i (drop i m) c else None)"

text \<open>
  \<open>find(char c, std::size_t pos = 0)\<close>:
  \<open>found = std::strchr(_data + pos, c); return found ? found - _data : npos;\<close>
\<close>

definition str_find :: "str \<Rightarrow> byte \<Rightarrow> size_t \<Rightarrow> size_t option" where
  "str_find s c pos = do {
     p \<leftarrow> ptr_add (str_data s) (unat pos);
     found \<leftarrow> strchr p c;
     if found \<noteq> nullptr
     then do { d \<leftarrow> ptr_diff found (str_data s); Some (word_of_int d) }
     else Some npos
   }"

text \<open>\<open>substr(pos)\<close> is \<open>str(_data + pos)\<close>; \<open>front()\<close> is \<open>_data[0]\<close>.\<close>

definition str_substr :: "str \<Rightarrow> size_t \<Rightarrow> str option" where
  "str_substr s pos = do {
     p \<leftarrow> ptr_add (str_data s) (unat pos);
     Some \<lparr>str_data = p\<rparr>
   }"

definition str_front :: "str \<Rightarrow> byte option" where
  "str_front s = deref (str_data s)"

text \<open>\<open>empty()\<close> is \<open>_data == nullptr || _data[0] == '\0'\<close>.\<close>

definition str_empty :: "str \<Rightarrow> bool option" where
  "str_empty s =
     (if str_data s = nullptr then Some True
      else do { b \<leftarrow> deref (str_data s); Some (b = 0) })"

text \<open>
  The classification functions of \<open><cctype>\<close> in the "C" locale, on the \<open>int\<close> they
  are called with. The standard fixes only that a member gives a non-zero result; the
  model gives \<open>1\<close>. Plain \<open>char\<close> is taken as signed when \<open>*s\<close> is converted to
  \<open>int\<close>.
\<close>

definition truth :: "bool \<Rightarrow> int" where
  "truth b = (if b then 1 else 0)"

definition isdigit :: "int \<Rightarrow> int" where
  "isdigit c = truth (48 \<le> c \<and> c \<le> 57)"

definition islower :: "int \<Rightarrow> int" where
  "islower c = truth (97 \<le> c \<and> c \<le> 122)"

definition isupper :: "int \<Rightarrow> int" where
  "isupper c = truth (65 \<le> c \<and> c \<le> 90)"

definition isalpha :: "int \<Rightarrow> int" where
  "isalpha c = truth (isupper c \<noteq> 0 \<or> islower c \<noteq> 0)"

definition isalnum :: "int \<Rightarrow> int" where
  "isalnum c = truth (isalpha c \<noteq> 0 \<or> isdigit c \<noteq> 0)"

definition isascii :: "int \<Rightarrow> int" where
  "isascii c = truth (0 \<le> c \<and> c \<le> 127)"

definition isblank :: "int \<Rightarrow> int" where
  "isblank c = truth (c = 32 \<or> c = 9)"

definition iscntrl :: "int \<Rightarrow> int" where
  "iscntrl c = truth ((0 \<le> c \<and> c \<le> 31) \<or> c = 127)"

definition isgraph :: "int \<Rightarrow> int" where
  "isgraph c = truth (33 \<le> c \<and> c \<le> 126)"

definition isprint :: "int \<Rightarrow> int" where
  "isprint c = truth (32 \<le> c \<and> c \<le> 126)"

definition ispunct :: "int \<Rightarrow> int" where
  "ispunct c = truth (isgraph c \<noteq> 0 \<and> isalnum c = 0)"

definition isspace :: "int \<Rightarrow> int" where
  "isspace c = truth (c = 32 \<or> (9 \<le> c \<and> c \<le> 13))"

definition isxdigit :: "int \<Rightarrow> int" where
  "isxdigit c = truth (isdigit c \<noteq> 0 \<or> (65 \<le> c \<and> c \<le> 70) \<or> (97 \<le> c \<and> c \<le> 102))"

text \<open>
  \<open>is(predicate)\<close>:
  \<open>s = _data; while (*s != '\0') { if (!predicate(*s)) return false; s++; } return true;\<close>
\<close>

fun is_loop :: "(int \<Rightarrow> int) \<Rightarrow> byte list \<Rightarrow> bool option" where
  "is_loop predicate [] = None"
| "is_loop predicate (b # bs) =
     (if b = 0 then Some True
      else if predicate (sint b) = 0 then Some False
      else is_loop predicate bs)"

definition str_is :: "str \<Rightarrow> (int \<Rightarrow> int) \<Rightarrow> bool option" where
  "str_is s predicate = do { bs \<leftarrow> bytes_from (str_data s); is_loop predicate bs }"

definition is_alnum :: "str \<Rightarrow> bool option" where
  "is_alnum s = str_is s isalnum"

definition is_alpha :: "str \<Rightarrow> bool option" where
  "is_alpha s = str_is s isalpha"

definition is_ascii :: "str \<Rightarrow> bool option" where
  "is_ascii s = str_is s isascii"

definition is_blank :: "str \<Rightarrow> bool option" where
  "is_blank s = str_is s isblank"

definition is_cntrl :: "str \<Rightarrow> bool option" where
  "is_cntrl s = str_is s iscntrl"

definition is_digit :: "str \<Rightarrow> bool option" where
  "is_digit s = str_is s isdigit"

definition is_graph :: "str \<Rightarrow> bool option" where
  "is_graph s = str_is s isgraph"

definition is_lower :: "str \<Rightarrow> bool option" where
  "is_lower s = str_is s islower"

definition is_print :: "str \<Rightarrow> bool option" where
  "is_print s = str_is s isprint"

definition is_punct :: "str \<Rightarrow> bool option" where
  "is_punct s = str_is s ispunct"

definition is_space :: "str \<Rightarrow> bool option" where
  "is_space s = str_is s isspace"

definition is_upper :: "str \<Rightarrow> bool option" where
  "is_upper s = str_is s isupper"

definition is_xdigit :: "str \<Rightarrow> bool option" where
  "is_xdigit s = str_is s isxdigit"

text \<open>
  An object fits the address space: its size is below \<open>2 ^ 64\<close>, so that every offset
  into it is a \<open>std::size_t\<close>.
\<close>

definition addressable :: "ptr \<Rightarrow> bool" where
  "addressable p = (case p of nullptr \<Rightarrow> True | Ptr m i \<Rightarrow> length m < 2 ^ 64)"

section \<open>rfc4627::json_writer (src/rfc/rfc4627/json_writer.cc)\<close>

subsection \<open>The writer's data\<close>

text \<open>
  The class declaration under src/ (json_writer.h) is older than the member functions of
  json_writer.cc. It declares \<open>_stream\<close>, the two \<open>write\<close> overloads and an
  \<open>enum class state\<close> with the single tag \<open>none = 0\<close>; the member functions use
  \<open>_depth\<close>, \<open>_state[_depth]\<close>, \<open>set_state\<close> and the tags \<open>object_begin\<close>,
  \<open>array_begin\<close> and \<open>array_element\<close>, which it does not declare. What is missing is
  taken from sections 3 and 4.1 of the specification.
\<close>

text \<open>
  Modelled from the spec: the tags of \<open>enum class state\<close>, of which the header has only
  \<open>none\<close>. They are the states of the per-depth state stack; \<open>none\<close>, the initial tag,
  is the specification's \<open>document\<close>.
\<close>

datatype state =
  none | document_done | array_begin | array_element | object_begin | object_key | object_value

text \<open>
  Modelled from the spec: the members \<open>_depth\<close> and \<open>_state\<close>, which the header does
  not declare. \<open>_depth\<close> is an unsigned integer; its width is fixed nowhere, so the record
  takes the type of the counter as its parameter, and the member functions work on a
  \<open>'w word\<close> for any width \<open>'w\<close>. \<open>_state\<close> has one slot for each depth; its bound is
  fixed nowhere either, and the model gives it a slot for every value of \<open>_depth\<close>.

  \<open>_stream\<close> is the \<open>FILE*\<close> of the header. The model keeps the bytes handed to it so
  far; the results of \<open>fputc\<close>, \<open>fputs\<close> and \<open>fprintf\<close> are discarded by the source
  and have no counterpart here.
\<close>

record 'd json_writer =
  depth :: 'd
  state :: "'d \<Rightarrow> state"
  stream :: "byte list"

text \<open>
  Modelled from the spec: the initial values of \<open>_depth\<close> and \<open>_state\<close>. The depth is
  zero at construction and every slot holds the initial tag. The constructor of the
  header is \<open>json_writer(FILE* stream) : _stream(stream) {}\<close>; \<open>s\<close> is what the stream
  holds already.
\<close>

definition json_writer_new :: "byte list \<Rightarrow> 'w::len word json_writer" where
  "json_writer_new s = \<lparr>depth = 0, state = (\<lambda>_. none), stream = s\<rparr>"

text \<open>
  How a call ends: it returns, it throws (the writer is left as it was at the
  \<open>throw\<close>), the process is aborted by a failed \<open>assert\<close>, or the behaviour is
  undefined (a string argument that is not a NUL-terminated string).
\<close>

datatype exn = invalid_argument string

datatype 'a outcome = Returned 'a | Thrown exn 'a | Aborted | Undefined

subsection \<open>The C library's formatting\<close>

text \<open>
  \<open>%llu\<close> and \<open>%lld\<close> print decimal digits, \<open>%04X\<close> prints upper-case hexadecimal
  digits padded with zeros to four. \<open>%.20g\<close> is not modelled: the functions that use
  it take the rendering of a finite \<open>double\<close> as their parameter \<open>fmt\<close>.
\<close>

function dec_digits :: "nat \<Rightarrow> byte list" where
  "dec_digits n =
     (if n < 10 then [0x30 + of_nat n] else dec_digits (n div 10) @ [0x30 + of_nat (n mod 10)])"
  by pat_completeness auto
termination
  by (relation "measure (\<lambda>n. n)") auto

declare dec_digits.simps [simp del]

definition printf_llu :: "64 word \<Rightarrow> byte list" where
  "printf_llu v = dec_digits (unat v)"

definition printf_lld :: "64 word \<Rightarrow> byte list" where
  "printf_lld v =
     (if sint v < 0 then 0x2D # dec_digits (nat (- sint v)) else dec_digits (nat (sint v)))"

definition hex_digit :: "nat \<Rightarrow> byte" where
  "hex_digit d = (if d < 10 then 0x30 + of_nat d else 0x41 + of_nat (d - 10))"

function hex_digits :: "nat \<Rightarrow> byte list" where
  "hex_digits n =
     (if n < 16 then [hex_digit n] else hex_digits (n div 16) @ [hex_digit (n mod 16)])"
  by pat_completeness auto
termination
  by (relation "measure (\<lambda>n. n)") auto

declare hex_digits.simps [simp del]

definition printf_04X :: "nat \<Rightarrow> byte list" where
  "printf_04X v = (let ds = hex_digits v in replicate (4 - length ds) 0x30 @ ds)"

text \<open>
  A \<open>double\<close> is its IEEE 754 binary64 bit pattern: \<open>std::isinf\<close> holds when the
  exponent bits are all ones and the fraction is zero, \<open>std::isnan\<close> when the exponent
  bits are all ones and the fraction is not zero.
\<close>

type_synonym double = "64 word"

definition isinf :: "double \<Rightarrow> bool" where
  "isinf v = (v AND 0x7FFFFFFFFFFFFFFF = 0x7FF0000000000000)"

definition isnan :: "double \<Rightarrow> bool" where
  "isnan v = (0x7FF0000000000000 < v AND 0x7FFFFFFFFFFFFFFF)"

subsection \<open>Protected and private members\<close>

text \<open>
  \<open>write(const int c)\<close> is \<open>fputc(c, _stream)\<close>, which writes \<open>c\<close> converted to
  \<open>unsigned char\<close>; \<open>write(const char* const s)\<close> is \<open>fputs(s, _stream)\<close>. Every
  caller passes a string literal, given here as its bytes.
\<close>

definition write_int :: "int \<Rightarrow> 'w word json_writer \<Rightarrow> 'w word json_writer" where
  "write_int c w = w\<lparr>stream := stream w @ [word_of_int c]\<rparr>"

definition write_str :: "byte list \<Rightarrow> 'w word json_writer \<Rightarrow> 'w word json_writer" where
  "write_str s w = w\<lparr>stream := stream w @ s\<rparr>"

text \<open>\<open>std::fprintf(_stream, ...)\<close>, given what the format renders.\<close>

definition fprintf :: "byte list \<Rightarrow> 'w word json_writer \<Rightarrow> 'w word json_writer" where
  "fprintf rendered w = w\<lparr>stream := stream w @ rendered\<rparr>"

text \<open>\<open>_depth++; // TODO: check for overflow\<close>\<close>

definition increment_depth :: "'w::len word json_writer \<Rightarrow> 'w word json_writer" where
  "increment_depth w = w\<lparr>depth := depth w + 1\<rparr>"

text \<open>\<open>assert(_depth >= 1); _depth--; // TODO: check for underflow\<close>\<close>

definition decrement_depth :: "'w::len word json_writer \<Rightarrow> 'w word json_writer outcome" where
  "decrement_depth w = (if depth w \<ge> 1 then Returned (w\<lparr>depth := depth w - 1\<rparr>) else Aborted)"

text \<open>
  Modelled from the spec: \<open>set_state\<close> is called by \<open>begin_object\<close> and
  \<open>begin_array\<close> but defined nowhere under src/. After \<open>depth++\<close> the specification
  has the new state pushed, that is stored in the slot of the current depth.
\<close>

definition set_state :: "state \<Rightarrow> 'w word json_writer \<Rightarrow> 'w word json_writer" where
  "set_state s w = w\<lparr>state := (state w)(depth w := s)\<rparr>"

text \<open>
  \<open>switch (_state[_depth]) { case state::array_element: write(','); break;
  default: break; }\<close>
\<close>

definition insert_separator :: "'w word json_writer \<Rightarrow> 'w word json_writer" where
  "insert_separator w =
     (case state w (depth w) of
        array_element \<Rightarrow> write_int 0x2C w
      | _ \<Rightarrow> w)"

text \<open>\<open>insert_whitespace()\<close> has an empty body (\<open>// TODO\<close>).\<close>

definition insert_whitespace :: "'w word json_writer \<Rightarrow> 'w word json_writer" where
  "insert_whitespace w = w"

text \<open>
  \<open>write_char(const std::uint8_t value)\<close>: the \<open>switch\<close> over the eight characters
  with a short escape, then the \<open>default\<close> branch.
\<close>

definition write_char :: "byte \<Rightarrow> 'w word json_writer \<Rightarrow> 'w word json_writer" where
  "write_char value w =
     (if value = 0x22 then write_str [0x5C, 0x22] w
      else if value = 0x5C then write_str [0x5C, 0x5C] w
      else if value = 0x2F then write_str [0x5C, 0x2F] w
      else if value = 0x08 then write_str [0x5C, 0x62] w
      else if value = 0x0C then write_str [0x5C, 0x66] w
      else if value = 0x0A then write_str [0x5C, 0x6E] w
      else if value = 0x0D then write_str [0x5C, 0x72] w
      else if value = 0x09 then write_str [0x5C, 0x74] w
      else if value \<le> 0x1F then fprintf (printf_04X (unat value)) (write_str [0x5C, 0x75] w)
      else write_int (uint value) w)"

subsection \<open>Public members\<close>

definition begin_object :: "'w::len word json_writer \<Rightarrow> 'w word json_writer outcome" where
  "begin_object w =
     Returned (write_int 0x7B (set_state object_begin (increment_depth
       (insert_whitespace (insert_separator w)))))"

definition finish_object :: "'w::len word json_writer \<Rightarrow> 'w word json_writer outcome" where
  "finish_object w =
     (case decrement_depth w of
        Returned w' \<Rightarrow> Returned (write_int 0x7D (insert_whitespace w'))
      | failed \<Rightarrow> failed)"

definition begin_array :: "'w::len word json_writer \<Rightarrow> 'w word json_writer outcome" where
  "begin_array w =
     Returned (write_int 0x5B (set_state array_begin (increment_depth
       (insert_whitespace (insert_separator w)))))"

definition finish_array :: "'w::len word json_writer \<Rightarrow> 'w word json_writer outcome" where
  "finish_array w =
     (case decrement_depth w of
        Returned w' \<Rightarrow> Returned (write_int 0x5D (insert_whitespace w'))
      | failed \<Rightarrow> failed)"

definition write_null :: "'w word json_writer \<Rightarrow> 'w word json_writer outcome" where
  "write_null w = Returned (write_str (bytes ''null'') (insert_whitespace (insert_separator w)))"

definition write_boolean :: "bool \<Rightarrow> 'w word json_writer \<Rightarrow> 'w word json_writer outcome" where
  "write_boolean value w =
     Returned (write_str (if value then bytes ''true'' else bytes ''false'')
       (insert_whitespace (insert_separator w)))"

text \<open>\<open>write_number(const long long value)\<close>\<close>

definition write_number_ll :: "64 word \<Rightarrow> 'w word json_writer \<Rightarrow> 'w word json_writer outcome" where
  "write_number_ll value w =
     Returned (fprintf (printf_lld value) (insert_whitespace (insert_separator w)))"

text \<open>\<open>write_number(const unsigned long long value)\<close>\<close>

definition write_number_ull :: "64 word \<Rightarrow> 'w word json_writer \<Rightarrow> 'w word json_writer outcome" where
  "write_number_ull value w =
     Returned (fprintf (printf_llu value) (insert_whitespace (insert_separator w)))"

text \<open>\<open>write_number(const double value)\<close>: the two checks come before anything is written.\<close>

definition write_number_double ::
  "(double \<Rightarrow> byte list) \<Rightarrow> double \<Rightarrow> 'w word json_writer \<Rightarrow> 'w word json_writer outcome" where
  "write_number_double fmt value w =
     (if isinf value then Thrown (invalid_argument ''Infinity cannot be serialized in JSON'') w
      else if isnan value then Thrown (invalid_argument ''NaN cannot be serialized in JSON'') w
      else Returned (fprintf (fmt value) (insert_whitespace (insert_separator w))))"

text \<open>
  \<open>write_string(const char* const value)\<close>. The loop
  \<open>while (*s != '\0') { write_char(*s++); }\<close> walks the bytes of the argument's object.
\<close>

fun write_string_loop :: "byte list \<Rightarrow> 'w word json_writer \<Rightarrow> 'w word json_writer outcome" where
  "write_string_loop [] w = Undefined"
| "write_string_loop (c # cs) w =
     (if c \<noteq> 0 then write_string_loop cs (write_char c w) else Returned w)"

definition write_string :: "ptr \<Rightarrow> 'w word json_writer \<Rightarrow> 'w word json_writer outcome" where
  "write_string value w =
     (if value = nullptr then write_null w
      else case bytes_from value of
        None \<Rightarrow> Undefined
      | Some s \<Rightarrow>
          (case write_string_loop s (write_int 0x22 (insert_whitespace (insert_separator w))) of
             Returned w' \<Rightarrow> Returned (write_int 0x22 w')
           | failed \<Rightarrow> failed))"

text \<open>
  \<open>flush()\<close>: \<open>if (std::fflush(_stream) != 0) { // TODO: error handling }
  return *this;\<close>, given the result of \<open>fflush\<close>.
\<close>

definition flush :: "int \<Rightarrow> 'w word json_writer \<Rightarrow> 'w word json_writer outcome" where
  "flush fflush_result w = (if fflush_result \<noteq> 0 then Returned w else Returned w)"

subsection \<open>Sequences of calls\<close>

datatype op =
  Begin_object | Finish_object | Begin_array | Finish_array
| Write_null | Write_boolean bool
| Write_number_ll "64 word" | Write_number_ull "64 word" | Write_number_double double
| Write_string ptr | Flush int

fun exec :: "(double \<Rightarrow> byte list) \<Rightarrow> op \<Rightarrow> 'w::len word json_writer \<Rightarrow> 'w word json_writer outcome" where
  "exec fmt Begin_object w = begin_object w"
| "exec fmt Finish_object w = finish_object w"
| "exec fmt Begin_array w = begin_array w"
| "exec fmt Finish_array w = finish_array w"
| "exec fmt Write_null w = write_null w"
| "exec fmt (Write_boolean b) w = write_boolean b w"
| "exec fmt (Write_number_ll v) w = write_number_ll v w"
| "exec fmt (Write_number_ull v) w = write_number_ull v w"
| "exec fmt (Write_number_double v) w = write_number_double fmt v w"
| "exec fmt (Write_string p) w = write_string p w"
| "exec fmt (Flush r) w = flush r w"

text \<open>
  The member functions return \<open>*this\<close>, so calls are chained:
  \<open>w.begin_array().write_null().finish_array()\<close>. A chain ends at the first call that
  does not return.
\<close>

fun chain :: "(double \<Rightarrow> byte list) \<Rightarrow> op list \<Rightarrow> 'w::len word json_writer \<Rightarrow> 'w word json_writer outcome" where
  "chain fmt [] w = Returned w"
| "chain fmt (c # cs) w =
     (case exec fmt c w of
        Returned w' \<Rightarrow> chain fmt cs w'
      | failed \<Rightarrow> failed)"

text \<open>
  A caller that makes the calls one statement after the other, each in its own
  \<open>try\<close> block, and goes on with the same writer after a \<open>catch\<close>. It reports for
  every call the exception it caught, if any, and ends with the writer; it does not
  survive an abort or undefined behaviour.
\<close>

fun calls ::
  "(double \<Rightarrow> byte list) \<Rightarrow> op list \<Rightarrow> 'w::len word json_writer \<Rightarrow> (exn option list \<times> 'w word json_writer) option" where
  "calls fmt [] w = Some ([], w)"
| "calls fmt (c # cs) w =
     (case exec fmt c w of
        Returned w' \<Rightarrow> map_option (\<lambda>(es, w''). (None # es, w'')) (calls fmt cs w')
      | Thrown e w' \<Rightarrow> map_option (\<lambda>(es, w''). (Some e # es, w'')) (calls fmt cs w')
      | Aborted \<Rightarrow> None
      | Undefined \<Rightarrow> None)"

text \<open>
  A sequence of \<open>begin_object\<close>, \<open>begin_array\<close>, \<open>finish_object\<close> and
  \<open>finish_array\<close> calls is balanced from a stack of open containers when every
  \<open>finish\<close> closes the innermost open container, which is of its kind, and the sequence
  leaves no container open.
\<close>

datatype container = Object | Array

fun balanced_from :: "container list \<Rightarrow> op list \<Rightarrow> bool" where
  "balanced_from st [] = (st = [])"
| "balanced_from st (Begin_object # cs) = balanced_from (Object # st) cs"
| "balanced_from st (Begin_array # cs) = balanced_from (Array # st) cs"
| "balanced_from (Object # st) (Finish_object # cs) = balanced_from st cs"
| "balanced_from (Array # st) (Finish_array # cs) = balanced_from st cs"
| "balanced_from st (c # cs) = False"

definition balanced :: "op list \<Rightarrow> bool" where
  "balanced cs = balanced_from [] cs"

text \<open>
  The greatest number of containers that are open at any point of a sequence of calls
  that starts with \<open>d\<close> of them open; \<open>nesting\<close> is that number for a sequence that
  starts with none.
\<close>

fun peak :: "nat \<Rightarrow> op list \<Rightarrow> nat" where
  "peak d [] = d"
| "peak d (Begin_object # cs) = max d (peak (Suc d) cs)"
| "peak d (Begin_array # cs) = max d (peak (Suc d) cs)"
| "peak d (Finish_object # cs) = max d (peak (d - 1) cs)"
| "peak d (Finish_array # cs) = max d (peak (d - 1) cs)"
| "peak d (c # cs) = max d (peak d cs)"

definition nesting :: "op list \<Rightarrow> nat" where
  "nesting cs = peak 0 cs"

subsection \<open>What the specification asks of a string\<close>

text \<open>
  The table of section 4.1 of the specification ("String escaping"), row by row: the
  eight short escapes, \<open>\u00XX\<close> with upper-case hexadecimal digits for the remaining
  bytes up to \<open>0x1F\<close>, every other byte as it is. It is stated apart from
  \<open>write_char\<close>, to compare the two.
\<close>

definition spec_escape :: "byte \<Rightarrow> byte list" where
  "spec_escape b =
     (if b = 0x22 then [0x5C, 0x22]
      else if b = 0x5C then [0x5C, 0x5C]
      else if b = 0x2F then [0x5C, 0x2F]
      else if b = 0x08 then [0x5C, 0x62]
      else if b = 0x0C then [0x5C, 0x66]
      else if b = 0x0A then [0x5C, 0x6E]
      else if b = 0x0D then [0x5C, 0x72]
      else if b = 0x09 then [0x5C, 0x74]
      else if b \<le> 0x1F
        then [0x5C, 0x75, 0x30, 0x30, hex_digit (unat b div 16), hex_digit (unat b mod 16)]
      else [b])"

text \<open>
  Reading a string back under RFC 4627, section 2.5:
  \<open>string = quotation-mark *char quotation-mark\<close>, where a \<open>char\<close> is an unescaped
  character (\<open>%x20-21 / %x23-5B / %x5D-10FFFF\<close>) or a backslash followed by one of
  \<open>" \ / b f n r t\<close> or by \<open>u\<close> and four hexadecimal digits. The reader works on
  UTF-8: a byte from \<open>0x80\<close> on belongs to an unescaped character and is kept, and
  \<open>\uXXXX\<close> gives the UTF-8 encoding of the code point. An escaped surrogate is not
  read (\<open>None\<close>), nor is anything else outside the grammar.
\<close>

definition hex_value :: "byte \<Rightarrow> nat option" where
  "hex_value h =
     (if 0x30 \<le> h \<and> h \<le> 0x39 then Some (unat h - 0x30)
      else if 0x41 \<le> h \<and> h \<le> 0x46 then Some (unat h - 0x41 + 10)
      else if 0x61 \<le> h \<and> h \<le> 0x66 then Some (unat h - 0x61 + 10)
      else None)"

definition hex4 :: "byte \<Rightarrow> byte \<Rightarrow> byte \<Rightarrow> byte \<Rightarrow> nat option" where
  "hex4 h1 h2 h3 h4 = do {
     d1 \<leftarrow> hex_value h1;
     d2 \<leftarrow> hex_value h2;
     d3 \<leftarrow> hex_value h3;
     d4 \<leftarrow> hex_value h4;
     Some (((d1 * 16 + d2) * 16 + d3) * 16 + d4)
   }"

definition utf8_encode :: "nat \<Rightarrow> byte list option" where
  "utf8_encode cp =
     (if cp < 0x80 then Some [of_nat cp]
      else if cp < 0x800 then Some [0xC0 + of_nat (cp div 64), 0x80 + of_nat (cp mod 64)]
      else if 0xD800 \<le> cp \<and> cp < 0xE000 then None
      else if cp < 0x10000
        then Some [0xE0 + of_nat (cp div 4096), 0x80 + of_nat (cp div 64 mod 64),
                   0x80 + of_nat (cp mod 64)]
      else None)"

text \<open>What one \<open>char\<close> reads as, followed by what the rest reads as, if both are read.\<close>

definition glue :: "byte list option \<Rightarrow> byte list option \<Rightarrow> byte list option" where
  "glue a b = (case a of None \<Rightarrow> None | Some x \<Rightarrow> map_option ((@) x) b)"

fun rfc4627_chars :: "byte list \<Rightarrow> byte list option" where
  "rfc4627_chars [] = Some []"
| "rfc4627_chars [b] = (if b = 0x5C \<or> b = 0x22 \<or> b < 0x20 then None else Some [b])"
| "rfc4627_chars (b # e # rest) =
     (if b = 0x5C then
        (if e = 0x22 then glue (Some [0x22]) (rfc4627_chars rest)
         else if e = 0x5C then glue (Some [0x5C]) (rfc4627_chars rest)
         else if e = 0x2F then glue (Some [0x2F]) (rfc4627_chars rest)
         else if e = 0x62 then glue (Some [0x08]) (rfc4627_chars rest)
         else if e = 0x66 then glue (Some [0x0C]) (rfc4627_chars rest)
         else if e = 0x6E then glue (Some [0x0A]) (rfc4627_chars rest)
         else if e = 0x72 then glue (Some [0x0D]) (rfc4627_chars rest)
         else if e = 0x74 then glue (Some [0x09]) (rfc4627_chars rest)
         else if e = 0x75 then
           (case rest of
              h1 # h2 # h3 # h4 # rest' \<Rightarrow>
                glue (hex4 h1 h2 h3 h4 \<bind> utf8_encode) (rfc4627_chars rest')
            | _ \<Rightarrow> None)
         else None)
      else if b = 0x22 \<or> b < 0x20 then None
      else glue (Some [b]) (rfc4627_chars (e # rest)))"

definition rfc4627_string :: "byte list \<Rightarrow> byte list option" where
  "rfc4627_string s =
     (if 2 \<le> length s \<and> hd s = 0x22 \<and> last s = 0x22
      then rfc4627_chars (butlast (tl s)) else None)"

section \<open>String literals, byte by byte\<close>

lemma bytes_simps [simp]:
  "bytes [] = []"
  "bytes (c # cs) = of_char c # bytes cs"
  by (simp_all add: bytes_def)

section \<open>Results about rfc3174::sha1\<close>

text \<open>
  C7. The constructor from a byte pointer is meant to take over the twenty bytes of the
  source. At the source \<open>1, 2, ..., 20\<close> it takes over the first byte only: byte 1 of the
  new digest is \<open>0\<close>, not \<open>2\<close>, and so are all the bytes after it.
\<close>

theorem sha1_from_ptr_copies_one_byte:
  "sha1_from_ptr (Ptr [1, 2, 3, 4, 5, 6, 7, 8, 9, 10, 11, 12, 13, 14, 15, 16, 17, 18, 19, 20] 0)
     = Some \<lparr>sha1_data = [1, 0, 0, 0, 0, 0, 0, 0, 0, 0, 0, 0, 0, 0, 0, 0, 0, 0, 0, 0]\<rparr>
   \<and> sha1_index \<lparr>sha1_data = [1, 0, 0, 0, 0, 0, 0, 0, 0, 0, 0, 0, 0, 0, 0, 0, 0, 0, 0, 0]\<rparr> 1 = Some 0
   \<and> deref (Ptr [1, 2, 3, 4, 5, 6, 7, 8, 9, 10, 11, 12, 13, 14, 15, 16, 17, 18, 19, 20] 1) = Some 2"
  by (simp add: sha1_from_ptr_def sha1_default_def sha1_size_def sha1_index_def eval_nat_numeral)

text \<open>
  C8. A copy is meant to compare equal to its original. The digest that is zero but for
  byte 1 (built as \<open>sha1 d; d[1] = 1;\<close>) is copied to the all-zero digest, and
  \<open>compare\<close> tells the two apart.
\<close>

theorem sha1_copy_compares_unequal:
  "sha1_assign sha1_default 1 1 = Some \<lparr>sha1_data = [0, 1, 0, 0, 0, 0, 0, 0, 0, 0, 0, 0, 0, 0, 0, 0, 0, 0, 0, 0]\<rparr>
   \<and> sha1_copy \<lparr>sha1_data = [0, 1, 0, 0, 0, 0, 0, 0, 0, 0, 0, 0, 0, 0, 0, 0, 0, 0, 0, 0]\<rparr> = sha1_default
   \<and> sha1_compare (sha1_copy \<lparr>sha1_data = [0, 1, 0, 0, 0, 0, 0, 0, 0, 0, 0, 0, 0, 0, 0, 0, 0, 0, 0, 0]\<rparr>)
        \<lparr>sha1_data = [0, 1, 0, 0, 0, 0, 0, 0, 0, 0, 0, 0, 0, 0, 0, 0, 0, 0, 0, 0]\<rparr> = - 1
   \<and> \<not> sha1_eq (sha1_copy \<lparr>sha1_data = [0, 1, 0, 0, 0, 0, 0, 0, 0, 0, 0, 0, 0, 0, 0, 0, 0, 0, 0, 0]\<rparr>)
        \<lparr>sha1_data = [0, 1, 0, 0, 0, 0, 0, 0, 0, 0, 0, 0, 0, 0, 0, 0, 0, 0, 0, 0]\<rparr>"
  by (simp add: sha1_assign_def sha1_copy_def sha1_compare_def sha1_eq_def memcmp_def
      sha1_default_def sha1_size_def eval_nat_numeral)

section \<open>Results about rfc::str\<close>

lemma drop_Cons_conv:
  "drop i m = b # bs \<Longrightarrow> i < length m \<and> m ! i = b \<and> drop (Suc i) m = bs"
proof -
  assume a: "drop i m = b # bs"
  then have len: "i < length m" by (cases "i < length m") simp_all
  from Cons_nth_drop_Suc [OF len] a show ?thesis using len by simp
qed

lemma strchr_loop_found:
  "strchr_loop m i bs c = Some (Ptr m' k) \<Longrightarrow> drop i m = bs \<Longrightarrow>
     m' = m \<and> i \<le> k \<and> k < length m \<and> m ! k = c"
proof (induction bs arbitrary: i)
  case Nil
  then show ?case by simp
next
  case (Cons b bs)
  from drop_Cons_conv [OF Cons.prems(2)]
  have len: "i < length m" and hd: "m ! i = b" and tl: "drop (Suc i) m = bs" by simp_all
  show ?case
  proof (cases "b = c")
    case True
    with Cons.prems(1) len hd show ?thesis by simp
  next
    case False
    with Cons.prems(1) have "strchr_loop m (Suc i) bs c = Some (Ptr m' k)"
      by (simp split: if_splits)
    from Cons.IH [OF this tl] show ?thesis by simp
  qed
qed


lemma strchr_found:
  assumes "strchr (Ptr m j) c = Some found" and "found \<noteq> nullptr"
  shows "\<exists>k. found = Ptr m k \<and> j \<le> k \<and> k < length m \<and> m ! k = c"
proof -
  from assms(2) obtain m' k where f: "found = Ptr m' k" by (cases found) simp_all
  from assms(1) f have "strchr_loop m j (drop j m) c = Some (Ptr m' k)"
    by (simp split: if_splits)
  from strchr_loop_found [OF this refl] f show ?thesis by simp
qed

text \<open>
  C9 (SV-2). Whenever \<open>find(c, pos)\<close> returns an index \<open>i\<close> other than \<open>npos\<close>, on a
  view of an object that fits the address space, \<open>substr(i)\<close> is a view whose
  \<open>front()\<close> is \<open>c\<close>. \<open>find(c)\<close> is the case \<open>pos = 0\<close>. On a null view
  \<open>find\<close> does not return. The terminating NUL is found as well (\<open>c = 0\<close>).
\<close>

theorem find_substr_front:
  assumes "str_find s c pos = Some i" and "i \<noteq> npos" and "addressable (str_data s)"
  shows "\<exists>t. str_substr s i = Some t \<and> str_front t = Some c"
proof (cases "str_data s")
  case nullptr
  with assms(1) show ?thesis
    by (simp add: str_find_def split: if_splits)
next
  case (Ptr m j)
  from assms(1) have e: "do {
       p \<leftarrow> ptr_add (Ptr m j) (unat pos);
       found \<leftarrow> strchr p c;
       if found \<noteq> nullptr
       then do { d \<leftarrow> ptr_diff found (Ptr m j); Some (word_of_int d) }
       else Some npos
     } = Some i"
    unfolding str_find_def Ptr .
  then have p: "j + unat pos \<le> length m"
    by (simp split: if_splits)
  with e obtain found where f: "strchr (Ptr m (j + unat pos)) c = Some found"
    and r: "(if found \<noteq> nullptr then do { d \<leftarrow> ptr_diff found (Ptr m j); Some (word_of_int d) }
             else Some npos) = Some i"
    by (auto simp add: bind_eq_Some_conv simp del: strchr.simps)
  from r assms(2) have nn: "found \<noteq> nullptr" by (cases "found = nullptr") simp_all
  from strchr_found [OF f nn] obtain k where k: "found = Ptr m k" "j + unat pos \<le> k"
    "k < length m" "m ! k = c" by blast
  from r nn k have i: "i = word_of_int (int k - int j)" by simp
  from k(2) have "j \<le> k" by simp
  then have "(word_of_int (int k - int j) :: size_t) = of_nat (k - j)"
    by (simp add: of_nat_diff)
  with i have "i = of_nat (k - j)" by (simp only:)
  moreover from assms(3) Ptr k(3) have "k - j < 2 ^ 64" by (simp add: addressable_def)
  ultimately have "unat i = k - j" by (simp add: unat_of_nat)
  with k Ptr show ?thesis by (simp add: str_substr_def str_front_def)
qed


theorem find_substr_front_witness:
  "str_find \<lparr>str_data = Ptr [0x61, 0x3D, 0x62, 0] 0\<rparr> 0x3D 0 = Some 1
   \<and> str_substr \<lparr>str_data = Ptr [0x61, 0x3D, 0x62, 0] 0\<rparr> 1
       = Some \<lparr>str_data = Ptr [0x61, 0x3D, 0x62, 0] 1\<rparr>
   \<and> str_front \<lparr>str_data = Ptr [0x61, 0x3D, 0x62, 0] 1\<rparr> = Some 0x3D
   \<and> (1 :: size_t) \<noteq> npos
   \<and> addressable (str_data \<lparr>str_data = Ptr [0x61, 0x3D, 0x62, 0] 0\<rparr>)"
  using find_substr_front [of "\<lparr>str_data = Ptr [0x61, 0x3D, 0x62, 0] 0\<rparr>" "0x3D" 0 1]
  by (simp add: str_find_def str_substr_def str_front_def npos_def addressable_def)


text \<open>
  C10. On a view whose data is not null and starts with NUL, \<open>is(predicate)\<close> returns
  true for every predicate, and so do the thirteen classification members: the loop
  body is never entered.
\<close>

theorem is_empty_string:
  assumes "deref (str_data s) = Some 0"
  shows "str_is s predicate = Some True
    \<and> is_alnum s = Some True \<and> is_alpha s = Some True \<and> is_ascii s = Some True
    \<and> is_blank s = Some True \<and> is_cntrl s = Some True \<and> is_digit s = Some True
    \<and> is_graph s = Some True \<and> is_lower s = Some True \<and> is_print s = Some True
    \<and> is_punct s = Some True \<and> is_space s = Some True \<and> is_upper s = Some True
    \<and> is_xdigit s = Some True"
proof -
  from assms obtain m i where p: "str_data s = Ptr m i" and i: "i < length m" and z: "m ! i = 0"
    by (cases "str_data s") (simp_all split: if_splits)
  from i z have "drop i m = 0 # drop (Suc i) m"
    by (simp add: Cons_nth_drop_Suc [symmetric])
  with p i have all: "str_is s q = Some True" for q
    by (simp add: str_is_def)
  show ?thesis
    unfolding is_alnum_def is_alpha_def is_ascii_def is_blank_def is_cntrl_def is_digit_def
      is_graph_def is_lower_def is_print_def is_punct_def is_space_def is_upper_def
      is_xdigit_def
    by (simp only: all simp_thms)
qed

theorem is_empty_string_witness:
  "deref (str_data \<lparr>str_data = Ptr [0] 0\<rparr>) = Some 0
   \<and> str_empty \<lparr>str_data = Ptr [0] 0\<rparr> = Some True
   \<and> str_is \<lparr>str_data = Ptr [0] 0\<rparr> isdigit = Some True
   \<and> is_upper \<lparr>str_data = Ptr [0] 0\<rparr> = Some True"
  using is_empty_string [of "\<lparr>str_data = Ptr [0] 0\<rparr>" isdigit]
  by (simp add: str_empty_def)


section \<open>Results about rfc4627::json_writer\<close>

subsection \<open>Separators\<close>

lemma insert_separator_fields [simp]:
  "depth (insert_separator w) = depth w"
  "state (insert_separator w) = state w"
  "stream (insert_separator w) =
     stream w @ (if state w (depth w) = array_element then [0x2C] else [])"
  by (cases "state w (depth w)"; simp add: insert_separator_def write_int_def)+

lemma write_string_loop_state:
  "write_string_loop cs w = Returned w' \<Longrightarrow> state w' = state w \<and> depth w' = depth w"
proof (induction cs arbitrary: w)
  case Nil
  then show ?case by simp
next
  case (Cons c cs)
  show ?case
  proof (cases "c = 0")
    case True
    with Cons.prems show ?thesis by simp
  next
    case False
    with Cons.prems have "write_string_loop cs (write_char c w) = Returned w'" by simp
    from Cons.IH [OF this] show ?thesis
      by (simp add: write_char_def write_str_def write_int_def fprintf_def)
  qed
qed

lemma write_string_state:
  assumes "write_string p w = Returned w'"
  shows "state w' = state w \<and> depth w' = depth w"
proof (cases "p = nullptr")
  case True
  with assms show ?thesis
    by (auto simp add: write_string_def write_null_def write_str_def insert_whitespace_def)
next
  case False
  with assms obtain s where s: "bytes_from p = Some s"
    by (cases "bytes_from p") (simp_all add: write_string_def)
  let ?w0 = "write_int 0x22 (insert_whitespace (insert_separator w))"
  from assms False s obtain w1 where w1: "write_string_loop s ?w0 = Returned w1"
    and w': "w' = write_int 0x22 w1"
    by (cases "write_string_loop s ?w0") (simp_all add: write_string_def)
  from write_string_loop_state [OF w1] w' show ?thesis
    by (simp add: write_int_def insert_whitespace_def)
qed

text \<open>
  No member function stores \<open>array_element\<close>: \<open>set_state\<close> is called with
  \<open>object_begin\<close> and \<open>array_begin\<close> only. A writer that has the tag in no slot has
  it in no slot after any call.
\<close>

lemma exec_no_array_element:
  assumes "exec fmt c w = Returned w'" and "\<And>d. state w d \<noteq> array_element"
  shows "state w' d \<noteq> array_element"
proof (cases c)
  case (Write_string p)
  with assms(1) have "state w' = state w" by (simp add: write_string_state)
  with assms(2) show ?thesis by simp
next
  case (Write_number_double v)
  with assms show ?thesis
    by (auto simp add: write_number_double_def fprintf_def insert_whitespace_def
        split: if_splits)
qed (use assms in \<open>auto simp add: begin_object_def finish_object_def begin_array_def
      finish_array_def decrement_depth_def write_null_def write_boolean_def write_number_ll_def
      write_number_ull_def flush_def set_state_def increment_depth_def insert_whitespace_def
      write_int_def write_str_def fprintf_def split: if_splits\<close>)

lemma chain_no_array_element:
  "chain fmt cs w = Returned w' \<Longrightarrow> (\<And>d. state w d \<noteq> array_element) \<Longrightarrow>
     state w' d \<noteq> array_element"
proof (induction cs arbitrary: w)
  case Nil
  then show ?case by simp
next
  case (Cons c cs)
  from Cons.prems(1) obtain w1 where w1: "exec fmt c w = Returned w1"
    and rest: "chain fmt cs w1 = Returned w'"
    by (cases "exec fmt c w") simp_all
  from exec_no_array_element [OF w1 Cons.prems(2)]
  have "\<And>d. state w1 d \<noteq> array_element" .
  from Cons.IH [OF rest this] show ?case .
qed

lemma new_writer_never_separates:
  assumes "chain fmt cs (json_writer_new s) = Returned w'"
  shows "insert_separator w' = w'"
proof -
  have "state w' (depth w') \<noteq> array_element"
    by (rule chain_no_array_element [OF assms]) (simp add: json_writer_new_def)
  then show ?thesis
    by (cases "state w' (depth w')") (simp_all add: insert_separator_def)
qed

text \<open>
  C1. The table has the state move to \<open>array_element\<close> after the first value of an
  array and a \<open>,\<close> written before the next one. \<open>insert_separator\<close> has the case for
  it, but no value moves the state on. On a new writer
  \<open>begin_array(); write_null(); write_null(); finish_array();\<close> writes \<open>[nullnull]\<close>
  and leaves \<open>array_begin\<close> in the slot of the array, and
  \<open>begin_array(); begin_object(); finish_object(); write_boolean(true);\<close> writes
  \<open>[{}true\<close>.
\<close>

theorem array_elements_not_separated:
  "(case chain (\<lambda>_. []) [Begin_array, Write_null, Write_null, Finish_array]
            (json_writer_new [] :: 32 word json_writer) of
         Returned w' \<Rightarrow>
           stream w' = [0x5B, 0x6E, 0x75, 0x6C, 0x6C, 0x6E, 0x75, 0x6C, 0x6C, 0x5D]
           \<and> state w' 1 = array_begin
       | _ \<Rightarrow> False)
   \<and> (case chain (\<lambda>_. []) [Begin_array, Begin_object, Finish_object, Write_boolean True]
            (json_writer_new [] :: 32 word json_writer) of
         Returned w' \<Rightarrow>
           stream w' = [0x5B, 0x7B, 0x7D, 0x74, 0x72, 0x75, 0x65]
           \<and> state w' (depth w') = array_begin
       | _ \<Rightarrow> False)"
  by (simp add: set_state_def json_writer_new_def write_null_def write_boolean_def
      insert_separator_def insert_whitespace_def write_str_def begin_array_def begin_object_def
      finish_array_def finish_object_def decrement_depth_def increment_depth_def write_int_def)

subsection \<open>Null strings\<close>

text \<open>
  C6. \<open>write_string\<close> with a null pointer is \<open>write_null\<close>: it returns, having
  written the separator and then the four bytes \<open>null\<close>, with no quotes, and leaves
  depth and states as they were.
\<close>

theorem write_string_nullptr:
  "write_string nullptr w = write_null w
   \<and> (\<exists>w'. write_string nullptr w = Returned w'
         \<and> stream w' = stream (insert_separator w) @ [0x6E, 0x75, 0x6C, 0x6C]
         \<and> depth w' = depth w \<and> state w' = state w)"
  by (simp add: write_string_def write_null_def write_str_def insert_whitespace_def)

subsection \<open>Numbers that are not finite\<close>

text \<open>
  C4. For an infinite or NaN argument \<open>write_number\<close> throws
  \<open>std::invalid_argument\<close> (the specification's \<open>non_finite_number\<close>) before it
  writes anything: the writer at the \<open>throw\<close> is the writer of the call, stream,
  depth and states included.
\<close>

theorem write_number_double_non_finite:
  "isinf value \<or> isnan value \<Longrightarrow>
     write_number_double fmt value w =
       Thrown (invalid_argument (if isinf value then ''Infinity cannot be serialized in JSON''
                                 else ''NaN cannot be serialized in JSON'')) w"
  by (auto simp add: write_number_double_def)

theorem write_number_double_non_finite_witness:
  "isnan 0x7FF8000000000000 \<and> isinf 0x7FF0000000000000 \<and> isinf 0xFFF0000000000000
   \<and> write_number_double (\<lambda>_. []) 0x7FF8000000000000 (json_writer_new [] :: 32 word json_writer)
       = Thrown (invalid_argument ''NaN cannot be serialized in JSON'') (json_writer_new [])
   \<and> write_number_double (\<lambda>_. []) 0xFFF0000000000000 (json_writer_new [] :: 32 word json_writer)
       = Thrown (invalid_argument ''Infinity cannot be serialized in JSON'') (json_writer_new [])"
  using write_number_double_non_finite [of "0x7FF8000000000000" "\<lambda>_. []" "json_writer_new [] :: 32 word json_writer"]
    write_number_double_non_finite [of "0xFFF0000000000000" "\<lambda>_. []" "json_writer_new [] :: 32 word json_writer"]
  by (simp add: isinf_def isnan_def)

subsection \<open>Errors are not latched\<close>

lemma write_string_loop_not_thrown: "write_string_loop cs w \<noteq> Thrown e w'"
  by (induction cs arbitrary: w) simp_all

lemma write_string_not_thrown: "write_string p w \<noteq> Thrown e w'"
proof (cases "p = nullptr")
  case True
  then show ?thesis by (simp add: write_string_def write_null_def)
next
  case False
  show ?thesis
  proof (cases "bytes_from p")
    case None
    with False show ?thesis by (simp add: write_string_def)
  next
    case (Some s)
    with False show ?thesis
      by (cases "write_string_loop s (write_int 0x22 (insert_whitespace (insert_separator w)))")
        (simp_all add: write_string_def write_string_loop_not_thrown)
  qed
qed

lemma exec_Thrown_same:
  assumes "exec fmt c w = Thrown e w'"
  shows "w' = w"
proof (cases c)
  case (Write_number_double v)
  with assms show ?thesis
    by (simp add: write_number_double_def split: if_splits)
next
  case (Write_string p)
  with assms show ?thesis by (simp add: write_string_not_thrown)
qed (use assms in \<open>simp_all add: begin_object_def finish_object_def begin_array_def
      finish_array_def decrement_depth_def write_null_def write_boolean_def write_number_ll_def
      write_number_ull_def flush_def split: if_splits\<close>)

text \<open>
  C2, as the specification states it, does not hold: the writer has no poison flag.
  After \<open>write_number(NaN)\<close> has thrown, \<open>write_null\<close> on the same writer returns
  normally and writes \<open>null\<close>.
\<close>

theorem poison_counterexample:
  "map_option fst (calls (\<lambda>_. []) [Write_number_double 0x7FF8000000000000, Write_null]
      (json_writer_new [] :: 32 word json_writer))
     = Some [Some (invalid_argument ''NaN cannot be serialized in JSON''), None]
   \<and> map_option (\<lambda>r. stream (snd r)) (calls (\<lambda>_. []) [Write_number_double 0x7FF8000000000000, Write_null]
      (json_writer_new [] :: 32 word json_writer))
     = Some [0x6E, 0x75, 0x6C, 0x6C]"
  by (simp add: write_number_double_def isnan_def isinf_def write_null_def write_str_def
      insert_whitespace_def json_writer_new_def)

text \<open>
  C2, amended. The only failure a member function reports to its caller is an exception,
  and a call that throws leaves the writer exactly as it was. Nothing is latched: the
  calls after it give what they give without the failed call.
\<close>

theorem failed_call_not_latched:
  assumes "exec fmt c w = Thrown e w'"
  shows "w' = w
    \<and> calls fmt (c # cs) w = map_option (\<lambda>(es, w''). (Some e # es, w'')) (calls fmt cs w)"
proof -
  from assms have "w' = w" by (rule exec_Thrown_same)
  with assms show ?thesis by simp
qed

theorem failed_call_not_latched_witness:
  "exec (\<lambda>_. []) (Write_number_double 0x7FF8000000000000) (json_writer_new [] :: 32 word json_writer)
     = Thrown (invalid_argument ''NaN cannot be serialized in JSON'') (json_writer_new [])
   \<and> calls (\<lambda>_. []) [Write_number_double 0x7FF8000000000000, Write_null]
        (json_writer_new [] :: 32 word json_writer)
     = map_option (\<lambda>(es, w''). (Some (invalid_argument ''NaN cannot be serialized in JSON'') # es, w''))
        (calls (\<lambda>_. []) [Write_null] (json_writer_new []))"
  using failed_call_not_latched [of "\<lambda>_. []" "Write_number_double 0x7FF8000000000000"
      "json_writer_new [] :: 32 word json_writer"
      "invalid_argument ''NaN cannot be serialized in JSON''" "json_writer_new []" "[Write_null]"]
  by (simp add: write_number_double_def isnan_def isinf_def)

subsection \<open>Depth\<close>

lemma begin_object_depth:
  "\<exists>w'. begin_object w = Returned w' \<and> depth w' = depth w + 1"
  by (simp add: begin_object_def write_int_def set_state_def increment_depth_def
      insert_whitespace_def)

lemma begin_array_depth:
  "\<exists>w'. begin_array w = Returned w' \<and> depth w' = depth w + 1"
  by (simp add: begin_array_def write_int_def set_state_def increment_depth_def
      insert_whitespace_def)

lemma decrement_depth_zero: "depth w = 0 \<Longrightarrow> decrement_depth w = Aborted"
  by (simp add: decrement_depth_def)

lemma decrement_depth_pos:
  "depth w \<noteq> 0 \<Longrightarrow> decrement_depth w = Returned (w\<lparr>depth := depth w - 1\<rparr>)"
  by (simp add: decrement_depth_def word_le_nat_alt unat_eq_0 [symmetric] del: unat_eq_0)

lemma finish_object_zero: "depth w = 0 \<Longrightarrow> finish_object w = Aborted"
  by (simp add: finish_object_def decrement_depth_zero)

lemma finish_array_zero: "depth w = 0 \<Longrightarrow> finish_array w = Aborted"
  by (simp add: finish_array_def decrement_depth_zero)

lemma finish_object_pos:
  "depth w \<noteq> 0 \<Longrightarrow> \<exists>w'. finish_object w = Returned w' \<and> depth w' = depth w - 1"
  by (simp add: finish_object_def decrement_depth_pos write_int_def insert_whitespace_def)

lemma finish_array_pos:
  "depth w \<noteq> 0 \<Longrightarrow> \<exists>w'. finish_array w = Returned w' \<and> depth w' = depth w - 1"
  by (simp add: finish_array_def decrement_depth_pos write_int_def insert_whitespace_def)

lemma unat_succ:
  fixes d :: "'w::len word"
  assumes "unat d + 1 < 2 ^ LENGTH('w)"
  shows "unat (d + 1) = unat d + 1"
  using assms unat_add_lem [of d 1] by simp

lemma unat_pred:
  fixes d :: "'w::len word"
  assumes "0 < unat d"
  shows "d \<noteq> 0 \<and> unat (d - 1) + 1 = unat d"
proof -
  from assms have nz: "d \<noteq> 0" by (auto simp: unat_eq_0)
  from unat_minus_one [OF nz] assms show ?thesis using nz by simp
qed

lemma peak_ge: "d \<le> peak d cs"
  by (induction d cs rule: peak.induct) simp_all

lemma chain_balanced_from:
  fixes w :: "'w::len word json_writer"
  shows "balanced_from st cs \<Longrightarrow> length st \<le> unat (depth w) \<Longrightarrow>
    peak (unat (depth w)) cs < 2 ^ LENGTH('w) \<Longrightarrow>
    \<exists>w'. chain fmt cs w = Returned w' \<and> unat (depth w') + length st = unat (depth w)"
proof (induction st cs arbitrary: w rule: balanced_from.induct)
  case (1 st)
  then show ?case by simp
next
  case (2 st cs)
  from begin_object_depth [of w] obtain w1 where
    w1: "begin_object w = Returned w1" "depth w1 = depth w + 1" by blast
  from "2.prems"(3) have pk: "peak (Suc (unat (depth w))) cs < 2 ^ LENGTH('w)" by simp
  with peak_ge [of "Suc (unat (depth w))" cs] have "unat (depth w) + 1 < 2 ^ LENGTH('w)"
    by simp
  then have u: "unat (depth w1) = Suc (unat (depth w))"
    by (simp add: w1(2) unat_succ)
  from "2.prems" have "balanced_from (Object # st) cs" by simp
  moreover from "2.prems"(2) u have "length (Object # st) \<le> unat (depth w1)" by simp
  moreover from pk u have "peak (unat (depth w1)) cs < 2 ^ LENGTH('w)" by simp
  ultimately obtain w' where "chain fmt cs w1 = Returned w'"
    "unat (depth w') + length (Object # st) = unat (depth w1)"
    using "2.IH" by blast
  with w1 u show ?case by simp
next
  case (3 st cs)
  from begin_array_depth [of w] obtain w1 where
    w1: "begin_array w = Returned w1" "depth w1 = depth w + 1" by blast
  from "3.prems"(3) have pk: "peak (Suc (unat (depth w))) cs < 2 ^ LENGTH('w)" by simp
  with peak_ge [of "Suc (unat (depth w))" cs] have "unat (depth w) + 1 < 2 ^ LENGTH('w)"
    by simp
  then have u: "unat (depth w1) = Suc (unat (depth w))"
    by (simp add: w1(2) unat_succ)
  from "3.prems" have "balanced_from (Array # st) cs" by simp
  moreover from "3.prems"(2) u have "length (Array # st) \<le> unat (depth w1)" by simp
  moreover from pk u have "peak (unat (depth w1)) cs < 2 ^ LENGTH('w)" by simp
  ultimately obtain w' where "chain fmt cs w1 = Returned w'"
    "unat (depth w') + length (Array # st) = unat (depth w1)"
    using "3.IH" by blast
  with w1 u show ?case by simp
next
  case (4 st cs)
  from "4.prems"(2) have "0 < unat (depth w)" by simp
  from unat_pred [OF this] have nz: "depth w \<noteq> 0" and p: "unat (depth w - 1) + 1 = unat (depth w)"
    by simp_all
  from finish_object_pos [OF nz] obtain w1 where
    w1: "finish_object w = Returned w1" "depth w1 = depth w - 1" by blast
  from p w1(2) have u: "unat (depth w1) = unat (depth w) - 1" by simp
  from "4.prems" have "balanced_from st cs" by simp
  moreover from "4.prems"(2) p w1(2) have "length st \<le> unat (depth w1)" by simp
  moreover from "4.prems"(3) u have "peak (unat (depth w1)) cs < 2 ^ LENGTH('w)" by simp
  ultimately obtain w' where "chain fmt cs w1 = Returned w'"
    "unat (depth w') + length st = unat (depth w1)"
    using "4.IH" by blast
  with w1 p show ?case by simp
next
  case (5 st cs)
  from "5.prems"(2) have "0 < unat (depth w)" by simp
  from unat_pred [OF this] have nz: "depth w \<noteq> 0" and p: "unat (depth w - 1) + 1 = unat (depth w)"
    by simp_all
  from finish_array_pos [OF nz] obtain w1 where
    w1: "finish_array w = Returned w1" "depth w1 = depth w - 1" by blast
  from p w1(2) have u: "unat (depth w1) = unat (depth w) - 1" by simp
  from "5.prems" have "balanced_from st cs" by simp
  moreover from "5.prems"(2) p w1(2) have "length st \<le> unat (depth w1)" by simp
  moreover from "5.prems"(3) u have "peak (unat (depth w1)) cs < 2 ^ LENGTH('w)" by simp
  ultimately obtain w' where "chain fmt cs w1 = Returned w'"
    "unat (depth w') + length st = unat (depth w1)"
    using "5.IH" by blast
  with w1 p show ?case by simp
qed simp_all

text \<open>
  C5, as the specification states it, does not hold of every balanced sequence:
  \<open>_depth++\<close> is not checked for overflow. With a counter of two bits, four nested
  \<open>begin_array\<close> calls bring the depth back to zero, and the first of the four matching
  \<open>finish_array\<close> calls stops at the \<open>assert\<close>.
\<close>

theorem depth_wraps_counterexample:
  "balanced [Begin_array, Begin_array, Begin_array, Begin_array,
             Finish_array, Finish_array, Finish_array, Finish_array]
   \<and> (case chain (\<lambda>_. []) [Begin_array, Begin_array, Begin_array, Begin_array]
            (json_writer_new [] :: 2 word json_writer) of
         Returned w' \<Rightarrow> depth w' = 0
       | _ \<Rightarrow> False)
   \<and> chain (\<lambda>_. []) [Begin_array, Begin_array, Begin_array, Begin_array,
                       Finish_array, Finish_array, Finish_array, Finish_array]
        (json_writer_new [] :: 2 word json_writer) = Aborted"
  by (simp add: balanced_def json_writer_new_def begin_array_def finish_array_def
      decrement_depth_def increment_depth_def set_state_def insert_separator_def
      insert_whitespace_def write_int_def word_le_nat_alt)

text \<open>
  C5, amended. The depth counter never underflows: at depth zero \<open>finish_object\<close> and
  \<open>finish_array\<close> stop at the \<open>assert\<close>, and a \<open>finish\<close> that returns has lowered
  the counter by exactly one, without wrapping. From a new writer, every balanced
  sequence of \<open>begin\<close> and \<open>finish\<close> calls whose nesting stays within the range of the
  counter, however long the sequence, runs to its end and leaves the depth at zero.
\<close>

theorem depth_balanced:
  fixes w :: "'w::len word json_writer"
  shows "(depth w = 0 \<longrightarrow> finish_object w = Aborted \<and> finish_array w = Aborted)
    \<and> (\<forall>w'. finish_object w = Returned w' \<or> finish_array w = Returned w'
          \<longrightarrow> unat (depth w') + 1 = unat (depth w))
    \<and> (balanced cs \<and> nesting cs < 2 ^ LENGTH('w)
          \<longrightarrow> (\<exists>w'. chain fmt cs (json_writer_new s :: 'w word json_writer) = Returned w'
                \<and> depth w' = 0))"
proof (intro conjI impI allI)
  assume "depth w = 0"
  then show "finish_object w = Aborted" and "finish_array w = Aborted"
    by (simp_all add: finish_object_zero finish_array_zero)
next
  fix w'
  assume r: "finish_object w = Returned w' \<or> finish_array w = Returned w'"
  then have nz: "depth w \<noteq> 0"
    by (auto simp add: finish_object_zero finish_array_zero)
  with r have "depth w' = depth w - 1"
    using finish_object_pos [OF nz] finish_array_pos [OF nz] by auto
  moreover from nz have "0 < unat (depth w)" by (simp add: unat_gt_0)
  ultimately show "unat (depth w') + 1 = unat (depth w)"
    using unat_pred by auto
next
  assume "balanced cs \<and> nesting cs < 2 ^ LENGTH('w)"
  then have "balanced_from [] cs"
    and "peak (unat (depth (json_writer_new s :: 'w word json_writer))) cs < 2 ^ LENGTH('w)"
    by (simp_all add: balanced_def nesting_def json_writer_new_def)
  from chain_balanced_from [OF this(1) _ this(2), of fmt]
  obtain w' where "chain fmt cs (json_writer_new s :: 'w word json_writer) = Returned w'"
    and "unat (depth w') = unat (depth (json_writer_new s :: 'w word json_writer))"
    by auto
  then show "\<exists>w'. chain fmt cs (json_writer_new s :: 'w word json_writer) = Returned w' \<and> depth w' = 0"
    by (simp add: json_writer_new_def unat_eq_0)
qed

theorem depth_balanced_witness:
  "balanced [Begin_object, Begin_array, Begin_array, Finish_array, Finish_array, Finish_object,
             Begin_array, Finish_array]
   \<and> nesting [Begin_object, Begin_array, Begin_array, Finish_array, Finish_array, Finish_object,
              Begin_array, Finish_array] = 3
   \<and> depth (json_writer_new [] :: 2 word json_writer) = 0
   \<and> finish_array (json_writer_new [] :: 2 word json_writer) = Aborted
   \<and> (case chain (\<lambda>_. [])
          [Begin_object, Begin_array, Begin_array, Finish_array, Finish_array, Finish_object,
           Begin_array, Finish_array]
          (json_writer_new [] :: 2 word json_writer) of
         Returned w' \<Rightarrow> depth w' = 0
           \<and> stream w' = [0x7B, 0x5B, 0x5B, 0x5D, 0x5D, 0x7D, 0x5B, 0x5D]
       | _ \<Rightarrow> False)
   \<and> (case finish_object ((json_writer_new [] :: 2 word json_writer)\<lparr>depth := 1\<rparr>) of
         Returned w' \<Rightarrow> depth w' = 0
       | _ \<Rightarrow> False)"
  using depth_balanced [of "json_writer_new [] :: 2 word json_writer"
      "[Begin_object, Begin_array, Begin_array, Finish_array, Finish_array, Finish_object,
        Begin_array, Finish_array]"
      "\<lambda>_. []" "[]"]
    depth_balanced [of "(json_writer_new [] :: 2 word json_writer)\<lparr>depth := 1\<rparr>" "[]" "\<lambda>_. []" "[]"]
  by (simp add: balanced_def nesting_def json_writer_new_def begin_object_def begin_array_def
      finish_object_def finish_array_def decrement_depth_def increment_depth_def set_state_def
      insert_separator_def insert_whitespace_def write_int_def)

subsection \<open>String escaping\<close>

lemma hex_digits_byte:
  assumes "n < 256"
  shows "hex_digits n = (if n < 16 then [hex_digit n] else [hex_digit (n div 16), hex_digit (n mod 16)])"
proof (cases "n < 16")
  case True
  then show ?thesis by (simp add: hex_digits.simps [of n])
next
  case False
  from assms have "n div 16 < 16" by simp
  then have "hex_digits (n div 16) = [hex_digit (n div 16)]"
    by (simp add: hex_digits.simps [of "n div 16"])
  with False show ?thesis by (simp add: hex_digits.simps [of n])
qed

lemma replicate_3: "replicate 3 x = [x, x, x]"
  by (simp add: numeral_3_eq_3)

lemma replicate_2: "replicate 2 x = [x, x]"
  by (simp add: numeral_2_eq_2)

lemma printf_04X_control:
  assumes "n < 32"
  shows "printf_04X n = [0x30, 0x30, hex_digit (n div 16), hex_digit (n mod 16)]"
proof (cases "n < 16")
  case True
  then have "hex_digit (n div 16) = 0x30" by (simp add: hex_digit_def)
  moreover from True have "hex_digits n = [hex_digit n]" by (simp add: hex_digits_byte)
  ultimately show ?thesis using True
    by (simp add: printf_04X_def replicate_3)
next
  case False
  with assms have "hex_digits n = [hex_digit (n div 16), hex_digit (n mod 16)]"
    by (simp add: hex_digits_byte)
  then show ?thesis
    by (simp add: printf_04X_def replicate_2)
qed

lemma control_unat: "(b :: byte) \<le> 0x1F \<Longrightarrow> unat b < 32"
  by (simp add: word_le_nat_alt)

lemma write_char_fields [simp]:
  "depth (write_char b w) = depth w"
  "state (write_char b w) = state w"
  by (simp_all add: write_char_def write_str_def write_int_def fprintf_def)

lemma write_char_stream:
  "stream (write_char b w) = stream w @ spec_escape b"
proof (cases "b \<le> 0x1F")
  case True
  then have "printf_04X (unat b) = [0x30, 0x30, hex_digit (unat b div 16), hex_digit (unat b mod 16)]"
    by (simp add: printf_04X_control control_unat)
  then show ?thesis
    by (simp add: write_char_def spec_escape_def write_str_def write_int_def fprintf_def)
next
  case False
  then show ?thesis
    by (simp add: write_char_def spec_escape_def write_str_def write_int_def fprintf_def)
qed

lemma write_string_loop_terminated:
  "0 \<in> set bs \<Longrightarrow>
     \<exists>w'. write_string_loop bs w = Returned w'
       \<and> stream w' = stream w @ concat (map spec_escape (takeWhile (\<lambda>b. b \<noteq> 0) bs))
       \<and> depth w' = depth w \<and> state w' = state w"
proof (induction bs arbitrary: w)
  case Nil
  then show ?case by simp
next
  case (Cons c cs)
  show ?case
  proof (cases "c = 0")
    case True
    then show ?thesis by simp
  next
    case False
    with Cons.prems have "0 \<in> set cs" by simp
    from Cons.IH [OF this, of "write_char c w"] False show ?thesis
      by (simp add: write_char_stream)
  qed
qed

lemma hex_value_hex_digit:
  assumes "d < 16"
  shows "hex_value (hex_digit d) = Some d"
proof (cases "d < 10")
  case True
  then have "unat (0x30 + of_nat d :: byte) = 48 + d"
    by (simp add: unat_word_ariths unat_of_nat)
  with True show ?thesis
    by (simp add: hex_digit_def hex_value_def word_le_nat_alt)
next
  case False
  with assms have "unat (0x41 + of_nat (d - 10) :: byte) = 55 + d"
    by (simp add: unat_word_ariths unat_of_nat)
  with False assms show ?thesis
    by (simp add: hex_digit_def hex_value_def word_le_nat_alt)
qed

lemma hex_value_zero: "hex_value 0x30 = Some 0"
  by (simp add: hex_value_def)

lemma control_less: "(b :: byte) < 0x20 \<longleftrightarrow> b \<le> 0x1F"
  by (auto simp add: word_less_nat_alt word_le_nat_alt)

lemma glue_single [simp]: "glue (Some [x]) r = map_option ((#) x) r"
  by (cases r) (simp_all add: glue_def)

lemma rfc4627_chars_control:
  assumes "(b :: byte) \<le> 0x1F"
  shows "rfc4627_chars
           (0x5C # 0x75 # 0x30 # 0x30 # hex_digit (unat b div 16) # hex_digit (unat b mod 16) # rest)
         = map_option ((#) b) (rfc4627_chars rest)"
proof -
  from assms have n: "unat b < 32" by (rule control_unat)
  then have "unat b div 16 < 16" and "unat b mod 16 < 16" by simp_all
  then have "hex4 0x30 0x30 (hex_digit (unat b div 16)) (hex_digit (unat b mod 16)) = Some (unat b)"
    by (simp add: hex4_def hex_value_zero hex_value_hex_digit)
  moreover from n have "utf8_encode (unat b) = Some [b]"
    by (simp add: utf8_encode_def)
  ultimately show ?thesis by simp
qed

lemma rfc4627_chars_plain:
  assumes "(b :: byte) \<noteq> 0x5C" and "b \<noteq> 0x22" and "\<not> b \<le> 0x1F"
  shows "rfc4627_chars (b # rest) = map_option ((#) b) (rfc4627_chars rest)"
  using assms by (cases rest) (simp_all add: control_less)

lemma rfc4627_chars_escape:
  "rfc4627_chars (spec_escape b @ rest) = map_option ((#) b) (rfc4627_chars rest)"
proof (cases "b \<in> {0x22, 0x5C, 0x2F, 0x08, 0x0C, 0x0A, 0x0D, 0x09}")
  case True
  then show ?thesis by (auto simp add: spec_escape_def)
next
  case False
  show ?thesis
  proof (cases "b \<le> 0x1F")
    case True
    with False show ?thesis
      by (simp add: spec_escape_def rfc4627_chars_control del: rfc4627_chars.simps)
  next
    case b: False
    with False show ?thesis
      by (simp add: spec_escape_def rfc4627_chars_plain del: rfc4627_chars.simps)
  qed
qed

lemma rfc4627_chars_escaped:
  "rfc4627_chars (concat (map spec_escape s)) = Some s"
  by (induction s) (simp_all add: rfc4627_chars_escape del: rfc4627_chars.simps(2,3))

lemma rfc4627_string_quoted:
  "rfc4627_string ([0x22] @ body @ [0x22]) = rfc4627_chars body"
  by (simp add: rfc4627_string_def butlast_append)

text \<open>
  C3 (JW-2). For a pointer to a NUL-terminated string, \<open>write_string\<close> returns,
  having written after the separator a quotation mark, for each byte of the string in
  turn the bytes that the table of the specification gives for it, and a quotation
  mark. \<open>write_char\<close> agrees with the table on every byte. Read back under RFC 4627
  the output is the string, and the escape of each single byte is that byte.
\<close>

theorem write_string_escapes:
  assumes "bytes_from value = Some bs" and "0 \<in> set bs"
  shows "(\<exists>w'. write_string value w = Returned w'
      \<and> stream w' = stream (insert_separator w) @ [0x22]
           @ concat (map spec_escape (takeWhile (\<lambda>b. b \<noteq> 0) bs)) @ [0x22])
    \<and> rfc4627_string ([0x22] @ concat (map spec_escape (takeWhile (\<lambda>b. b \<noteq> 0) bs)) @ [0x22])
        = Some (takeWhile (\<lambda>b. b \<noteq> 0) bs)
    \<and> stream (write_char b w) = stream w @ spec_escape b
    \<and> rfc4627_chars (spec_escape b) = Some [b]"
proof -
  let ?w0 = "write_int 0x22 (insert_whitespace (insert_separator w))"
  from assms(1) have nn: "value \<noteq> nullptr" by (cases "value") simp_all
  from write_string_loop_terminated [OF assms(2), of ?w0] obtain w1 where
    w1: "write_string_loop bs ?w0 = Returned w1"
      "stream w1 = stream ?w0 @ concat (map spec_escape (takeWhile (\<lambda>b. b \<noteq> 0) bs))"
    by blast
  from nn assms(1) w1(1) have "write_string value w = Returned (write_int 0x22 w1)"
    by (simp add: write_string_def)
  moreover from w1(2) have "stream (write_int 0x22 w1) = stream (insert_separator w) @ [0x22]
      @ concat (map spec_escape (takeWhile (\<lambda>b. b \<noteq> 0) bs)) @ [0x22]"
    by (simp add: write_int_def insert_whitespace_def)
  ultimately have first: "\<exists>w'. write_string value w = Returned w'
      \<and> stream w' = stream (insert_separator w) @ [0x22]
           @ concat (map spec_escape (takeWhile (\<lambda>b. b \<noteq> 0) bs)) @ [0x22]"
    by blast
  have second: "rfc4627_string ([0x22] @ concat (map spec_escape (takeWhile (\<lambda>b. b \<noteq> 0) bs)) @ [0x22])
        = Some (takeWhile (\<lambda>b. b \<noteq> 0) bs)"
    by (simp only: rfc4627_string_quoted rfc4627_chars_escaped)
  have "rfc4627_chars (concat (map spec_escape [b])) = Some [b]"
    by (rule rfc4627_chars_escaped)
  then have third: "rfc4627_chars (spec_escape b) = Some [b]" by simp
  from first second third show ?thesis
    by (simp only: write_char_stream simp_thms)
qed

theorem write_string_escapes_witness:
  "bytes_from (Ptr [0x61, 0x22, 0x62, 0x5C, 0x63, 0x0A, 0x64, 0x01, 0x2F, 0xC3, 0xA9, 0] 0)
     = Some [0x61, 0x22, 0x62, 0x5C, 0x63, 0x0A, 0x64, 0x01, 0x2F, 0xC3, 0xA9, 0]
   \<and> (0 :: byte) \<in> set [0x61, 0x22, 0x62, 0x5C, 0x63, 0x0A, 0x64, 0x01, 0x2F, 0xC3, 0xA9, 0]
   \<and> (case write_string (Ptr [0x61, 0x22, 0x62, 0x5C, 0x63, 0x0A, 0x64, 0x01, 0x2F, 0xC3, 0xA9, 0] 0)
            (json_writer_new [] :: 32 word json_writer) of
         Returned w' \<Rightarrow> stream w' =
           [0x22, 0x61, 0x5C, 0x22, 0x62, 0x5C, 0x5C, 0x63, 0x5C, 0x6E, 0x64,
            0x5C, 0x75, 0x30, 0x30, 0x30, 0x31, 0x5C, 0x2F, 0xC3, 0xA9, 0x22]
       | _ \<Rightarrow> False)
   \<and> rfc4627_string
         [0x22, 0x61, 0x5C, 0x22, 0x62, 0x5C, 0x5C, 0x63, 0x5C, 0x6E, 0x64,
          0x5C, 0x75, 0x30, 0x30, 0x30, 0x31, 0x5C, 0x2F, 0xC3, 0xA9, 0x22]
       = Some [0x61, 0x22, 0x62, 0x5C, 0x63, 0x0A, 0x64, 0x01, 0x2F, 0xC3, 0xA9]"
  using write_string_escapes [of "Ptr [0x61, 0x22, 0x62, 0x5C, 0x63, 0x0A, 0x64, 0x01, 0x2F, 0xC3, 0xA9, 0] 0"
      "[0x61, 0x22, 0x62, 0x5C, 0x63, 0x0A, 0x64, 0x01, 0x2F, 0xC3, 0xA9, 0]"
      "json_writer_new [] :: 32 word json_writer" 0]
  by (auto simp add: spec_escape_def hex_digit_def json_writer_new_def)

end
